theory Spec2Isabelle
  imports Main
begin

section \<open>Python strings\<close>

text \<open>
  A Python \<open>str\<close> is modelled as a \<open>string\<close> holding one \<open>char\<close> per code point, so
  the model covers the code points below 256. The character classes below are those of
  CPython on that range.
\<close>

definition py_whitespace :: "char list" where
  \<comment> \<open>the code points for which \<open>str.isspace\<close> holds; \<open>str.strip()\<close> removes them\<close>
  "py_whitespace = [CHR 0x09, CHR 0x0A, CHR 0x0B, CHR 0x0C, CHR 0x0D, CHR 0x1C, CHR 0x1D,
     CHR 0x1E, CHR 0x1F, CHR 0x20, CHR 0x85, CHR 0xA0]"

definition py_isspace :: "char \<Rightarrow> bool" where
  "py_isspace c = (c \<in> set py_whitespace)"

definition py_lstrip :: "string \<Rightarrow> string" where
  "py_lstrip s = dropWhile py_isspace s"

definition py_rstrip :: "string \<Rightarrow> string" where
  "py_rstrip s = rev (dropWhile py_isspace (rev s))"

definition py_strip :: "string \<Rightarrow> string" where
  \<comment> \<open>\<open>s.strip()\<close>\<close>
  "py_strip s = py_rstrip (py_lstrip s)"

fun py_split :: "char \<Rightarrow> string \<Rightarrow> string list" where
  \<comment> \<open>\<open>s.split(sep)\<close> for a separator of one character: never the empty list\<close>
  "py_split sep [] = [[]]"
| "py_split sep (c # cs) =
     (if c = sep then [] # py_split sep cs
      else (case py_split sep cs of
              [] \<Rightarrow> [[c]]
            | field # fields \<Rightarrow> (c # field) # fields))"

fun py_join :: "string \<Rightarrow> string list \<Rightarrow> string" where
  \<comment> \<open>\<open>sep.join(xs)\<close>\<close>
  "py_join sep [] = []"
| "py_join sep [x] = x"
| "py_join sep (x # y # ys) = x @ sep @ py_join sep (y # ys)"

definition py_linebreaks :: "char list" where
  \<comment> \<open>the line boundaries of \<open>str.splitlines\<close>; CR LF counts as one boundary\<close>
  "py_linebreaks = [CHR 0x0A, CHR 0x0B, CHR 0x0C, CHR 0x0D, CHR 0x1C, CHR 0x1D, CHR 0x1E,
     CHR 0x85]"

fun splitlines_from :: "string \<Rightarrow> string \<Rightarrow> string list" where
  \<comment> \<open>first argument: the line read so far\<close>
  "splitlines_from cur [] = (if cur = [] then [] else [cur])"
| "splitlines_from cur [c] = (if c \<in> set py_linebreaks then [cur] else [cur @ [c]])"
| "splitlines_from cur (c # d # cs) =
     (if c = CHR 0x0D \<and> d = CHR 0x0A then cur # splitlines_from [] cs
      else if c \<in> set py_linebreaks then cur # splitlines_from [] (d # cs)
      else splitlines_from (cur @ [c]) (d # cs))"

definition py_splitlines :: "string \<Rightarrow> string list" where
  \<comment> \<open>\<open>s.splitlines()\<close>: the lines without their terminators\<close>
  "py_splitlines s = splitlines_from [] s"

section \<open>Python integers\<close>

definition py_isdigit :: "char \<Rightarrow> bool" where
  \<comment> \<open>the decimal digits among the code points below 256\<close>
  "py_isdigit c = (c \<in> set ''0123456789'')"

definition digit_value :: "char \<Rightarrow> nat" where
  "digit_value c = of_char c - of_char (CHR ''0'')"

definition int_whitespace :: "char list" where
  \<comment> \<open>what \<open>int()\<close> skips around a literal: the separators 0x1C to 0x1F are not among them\<close>
  "int_whitespace = [CHR 0x09, CHR 0x0A, CHR 0x0B, CHR 0x0C, CHR 0x0D, CHR 0x20, CHR 0x85,
     CHR 0xA0]"

definition int_max_str_digits :: nat where
  \<comment> \<open>the interpreter's default limit on the digits of a decimal literal\<close>
  "int_max_str_digits = 4300"

fun int_digits :: "nat \<Rightarrow> string \<Rightarrow> nat option" where
  \<comment> \<open>the digits after the first, single underscores allowed between two digits\<close>
  "int_digits acc [] = Some acc"
| "int_digits acc [c] = (if py_isdigit c then Some (10 * acc + digit_value c) else None)"
| "int_digits acc (c # d # cs) =
     (if py_isdigit c then int_digits (10 * acc + digit_value c) (d # cs)
      else if c = CHR ''_'' \<and> py_isdigit d then int_digits (10 * acc + digit_value d) cs
      else None)"

definition int_literal :: "string \<Rightarrow> nat option" where
  "int_literal s =
     (case s of
        [] \<Rightarrow> None
      | c # cs \<Rightarrow> if py_isdigit c then int_digits (digit_value c) cs else None)"

definition py_int :: "string \<Rightarrow> int option" where
  \<comment> \<open>\<open>int(s)\<close> in base ten; \<open>None\<close> is \<open>ValueError\<close>\<close>
  "py_int s =
     (let t = rev (dropWhile (\<lambda>c. c \<in> set int_whitespace)
                (rev (dropWhile (\<lambda>c. c \<in> set int_whitespace) s)));
          (negative, body) =
             (case t of
                [] \<Rightarrow> (False, t)
              | c # cs \<Rightarrow> if c = CHR ''-'' then (True, cs)
                          else if c = CHR ''+'' then (False, cs) else (False, t))
      in if int_max_str_digits < length (filter py_isdigit body) then None
         else (case int_literal body of
                 None \<Rightarrow> None
               | Some m \<Rightarrow> Some (if negative then - int m else int m)))"

section \<open>Tree nodes\<close>

text \<open>
  A \<open>TreeNode\<close> carries its tag name, its attribute dictionary, its text content, the
  error message the sanitizing hooks assign, and its children. An attribute lookup
  \<open>self.attrs.get(k, d)\<close> is \<open>attrs_get\<close>.
\<close>

datatype tree_node = TreeNode
  (name: string)
  (attrs: "string \<rightharpoonup> string")
  (content: string)
  (error_message: "string option")
  (children: "tree_node list")

fun set_error_message :: "string \<Rightarrow> tree_node \<Rightarrow> tree_node" where
  \<comment> \<open>\<open>self.error_message = msg\<close>\<close>
  "set_error_message msg (TreeNode nm at ct err ch) = TreeNode nm at ct (Some msg) ch"

definition attrs_get :: "tree_node \<Rightarrow> string \<Rightarrow> string \<Rightarrow> string" where
  "attrs_get n k d = (case attrs n k of None \<Rightarrow> d | Some v \<Rightarrow> v)"

section \<open>Collaborators\<close>

text \<open>
  The tag classes call into the rest of the package (\<open>TreeNode\<close>, \<open>sanitize_url\<close>,
  \<open>slugify\<close>, \<open>get_relative_url_base\<close>), into the highlighter and into parts of the
  standard library that are tables rather than algorithms. These are parameters of the
  model, gathered in one record; nothing is assumed of them unless a theorem says so.
\<close>

record html_formatter =
  \<comment> \<open>the options \<open>render_html\<close> passes to \<open>HtmlFormatter\<close>\<close>
  style :: string
  linenos :: "string option"
  hl_lines :: "int list"
  linenostart :: int
  noclasses :: bool
  lineanchors :: string
  anchorlinenos :: bool

record lexer =
  \<comment> \<open>a lexer as \<open>get_lexer_by_name(name, tabsize=...)\<close> returns it\<close>
  lexer_name :: string
  tabsize :: int

record services =
  base_sanitize_node :: "tree_node list \<Rightarrow> tree_node \<Rightarrow> tree_node"
    \<comment> \<open>\<open>TreeNode.sanitize_node(breadcrumb)\<close>, the hook the tag classes extend\<close>
  raw_content :: "string \<Rightarrow> tree_node list \<Rightarrow> string"
    \<comment> \<open>\<open>TreeNode.get_raw_content()\<close>, from the node's content and children\<close>
  attribute_value :: "string \<Rightarrow> (string \<rightharpoonup> string) \<Rightarrow> string list \<Rightarrow> string \<Rightarrow> string"
    \<comment> \<open>\<open>TreeNode.get_attribute_value(*attr_names, default)\<close>, from the node's name and attributes\<close>
  relative_url_base :: string
    \<comment> \<open>\<open>get_relative_url_base(self.root_tree_node)\<close>\<close>
  sanitize_url :: "string \<Rightarrow> string list option \<Rightarrow> string \<Rightarrow> string"
    \<comment> \<open>\<open>sanitize_url(url, allowed_schemes, absolute_base_url)\<close>; \<open>None\<close>: the default schemes\<close>
  slugify :: "string \<Rightarrow> string"
  replace_charrefs :: "string \<Rightarrow> string"
    \<comment> \<open>the entity table of \<open>html.unescape\<close>\<close>
  parse_qs :: "string \<Rightarrow> (string \<rightharpoonup> string list)"
  bracketed_host_ok :: "string \<Rightarrow> bool"
    \<comment> \<open>\<open>urlsplit\<close>: the bracketed host is an IP literal\<close>
  netloc_nfkc_ok :: "string \<Rightarrow> bool"
    \<comment> \<open>\<open>urlsplit\<close>: the non-ASCII netloc passes the NFKC check\<close>
  lexer_known :: "string \<Rightarrow> bool"
    \<comment> \<open>\<open>get_lexer_by_name(name)\<close> finds a lexer; \<open>False\<close> is \<open>ClassNotFound\<close>\<close>
  highlight :: "string \<Rightarrow> lexer \<Rightarrow> html_formatter \<Rightarrow> string"
    \<comment> \<open>\<open>highlight(code, lexer, formatter)\<close>\<close>

datatype py_error = ClassNotFound | AssertionError

definition get_raw_content :: "services \<Rightarrow> tree_node \<Rightarrow> string" where
  "get_raw_content svc n = raw_content svc (content n) (children n)"

definition get_attribute_value :: "services \<Rightarrow> tree_node \<Rightarrow> string list \<Rightarrow> string \<Rightarrow> string" where
  "get_attribute_value svc n attr_names d = attribute_value svc (name n) (attrs n) attr_names d"

section \<open>HTML escaping and number formatting\<close>

fun escape_char :: "char \<Rightarrow> string" where
  \<open>escape_char c =
     (if c = CHR ''&'' then ''&amp;''
      else if c = CHR ''<'' then ''&lt;''
      else if c = CHR ''>'' then ''&gt;''
      else if c = CHR 0x22 then ''&quot;''
      else if c = CHR 0x27 then ''&#x27;''
      else [c])\<close>

definition escape_html :: "string \<Rightarrow> string" where
  \<comment> \<open>\<open>html.escape(s)\<close>, quotes included\<close>
  "escape_html s = concat (map escape_char s)"

definition unescape_html_entities :: "services \<Rightarrow> string \<Rightarrow> string" where
  \<comment> \<open>\<open>html.unescape(s)\<close>: a string without an ampersand is returned as it is\<close>
  "unescape_html_entities svc s = (if CHR ''&'' \<in> set s then replace_charrefs svc s else s)"

definition digit_char :: "nat \<Rightarrow> char" where
  "digit_char d = char_of (of_char (CHR ''0'') + d)"

fun nat_digits :: "nat \<Rightarrow> string" where
  "nat_digits k = (if k < 10 then [digit_char k] else nat_digits (k div 10) @ [digit_char (k mod 10)])"

declare nat_digits.simps [simp del]

definition py_str_int :: "int \<Rightarrow> string" where
  \<comment> \<open>how \<open>str.format\<close> writes an integer\<close>
  "py_str_int k = (if k < 0 then CHR ''-'' # nat_digits (nat (- k)) else nat_digits (nat k))"

section \<open>URLs\<close>

definition ascii_letters :: "char list" where
  "ascii_letters = ''abcdefghijklmnopqrstuvwxyzABCDEFGHIJKLMNOPQRSTUVWXYZ''"

definition scheme_chars :: "char list" where
  "scheme_chars = ascii_letters @ ''0123456789+-.''"

definition ascii_lower :: "char \<Rightarrow> char" where
  "ascii_lower c =
     (if c \<in> set ''ABCDEFGHIJKLMNOPQRSTUVWXYZ'' then char_of (of_char c + (32::nat)) else c)"

definition split_scheme :: "string \<Rightarrow> string \<times> string" where
  \<comment> \<open>the scheme before the first colon, when it starts with a letter and holds scheme characters only\<close>
  "split_scheme url =
     (let front = takeWhile (\<lambda>c. c \<noteq> CHR '':'') url
      in (case front of
            [] \<Rightarrow> ([], url)
          | c # _ \<Rightarrow>
              if length front < length url \<and> c \<in> set ascii_letters
                 \<and> list_all (\<lambda>c. c \<in> set scheme_chars) front
              then (map ascii_lower front, drop (length front + 1) url)
              else ([], url)))"

definition splitnetloc :: "string \<Rightarrow> string \<times> string" where
  \<comment> \<open>\<open>_splitnetloc(url, 2)\<close>: the netloc ends at the first of \<open>/ ? #\<close>\<close>
  "splitnetloc url =
     (let rest = drop 2 url
      in (takeWhile (\<lambda>c. c \<notin> set ''/?#'') rest, dropWhile (\<lambda>c. c \<notin> set ''/?#'') rest))"

definition brackets_ok :: "services \<Rightarrow> string \<Rightarrow> bool" where
  "brackets_ok svc netloc =
     (let opening = CHR ''['' \<in> set netloc; closing = CHR '']'' \<in> set netloc
      in if opening \<noteq> closing then False
         else if opening \<and> closing
         then bracketed_host_ok svc
                (takeWhile (\<lambda>c. c \<noteq> CHR '']'') (tl (dropWhile (\<lambda>c. c \<noteq> CHR ''['') netloc)))
         else True)"

definition split_first :: "char \<Rightarrow> string \<Rightarrow> string \<times> string" where
  \<comment> \<open>\<open>if sep in url: url, rest = url.split(sep, 1)\<close>\<close>
  "split_first sep url =
     (if sep \<in> set url
      then (takeWhile (\<lambda>c. c \<noteq> sep) url, tl (dropWhile (\<lambda>c. c \<noteq> sep) url))
      else (url, []))"

definition checknetloc :: "services \<Rightarrow> string \<Rightarrow> bool" where
  "checknetloc svc netloc =
     (netloc = [] \<or> list_all (\<lambda>c. of_char c < (128::nat)) netloc \<or> netloc_nfkc_ok svc netloc)"

definition urlsplit ::
  "services \<Rightarrow> string \<Rightarrow> (string \<times> string \<times> string \<times> string \<times> string) option" where
  \<comment> \<open>\<open>urllib.parse.urlsplit(url)\<close>: scheme, netloc, path, query, fragment; \<open>None\<close> is \<open>ValueError\<close>\<close>
  "urlsplit svc url =
     (let url = dropWhile (\<lambda>c. of_char c \<le> (32::nat)) url;
          url = filter (\<lambda>c. c \<notin> set [CHR 0x09, CHR 0x0D, CHR 0x0A]) url;
          (scheme, url) = split_scheme url;
          (netloc, url, brackets) =
             (if take 2 url = ''//''
              then (let (netloc, rest) = splitnetloc url in (netloc, rest, brackets_ok svc netloc))
              else ([], url, True));
          (url, fragment) = split_first (CHR ''#'') url;
          (url, query) = split_first (CHR ''?'') url
      in if brackets \<and> checknetloc svc netloc
         then Some (scheme, netloc, url, query, fragment)
         else None)"

definition posixpath_basename :: "string \<Rightarrow> string" where
  "posixpath_basename p = rev (takeWhile (\<lambda>c. c \<noteq> CHR ''/'') (rev p))"

definition hex_digit :: "nat \<Rightarrow> char" where
  "hex_digit d = (if d < 10 then digit_char d else char_of (of_char (CHR ''A'') + (d - 10)))"

definition percent_byte :: "nat \<Rightarrow> string" where
  "percent_byte b = [CHR ''%'', hex_digit (b div 16), hex_digit (b mod 16)]"

definition utf8_bytes :: "char \<Rightarrow> nat list" where
  \<comment> \<open>the UTF-8 encoding of a code point below 256\<close>
  "utf8_bytes c =
     (let k = of_char c in if k < 128 then [k] else [192 + k div 64, 128 + k mod 64])"

definition quote_plus :: "string \<Rightarrow> string" where
  \<comment> \<open>\<open>urllib.parse.quote_plus(s)\<close>\<close>
  "quote_plus s =
     concat (map (\<lambda>c. if c = CHR '' '' then ''+''
                       else if c \<in> set (ascii_letters @ ''0123456789_.-~'') then [c]
                       else concat (map percent_byte (utf8_bytes c))) s)"

section \<open>Code blocks: cleaned content\<close>

datatype cleaned_content = Lines "string list" | Joined string

fun pop_leading_blank :: "string list \<Rightarrow> string list" where
  \<comment> \<open>\<open>while lines and not lines[0].strip(): lines.pop(0)\<close>\<close>
  "pop_leading_blank [] = []"
| "pop_leading_blank (l # ls) = (if py_strip l = [] then pop_leading_blank ls else l # ls)"

function pop_trailing_blank :: "string list \<Rightarrow> string list" where
  \<comment> \<open>\<open>while lines and not lines[-1].strip(): lines.pop()\<close>\<close>
  "pop_trailing_blank ls =
     (if ls \<noteq> [] \<and> py_strip (last ls) = [] then pop_trailing_blank (butlast ls) else ls)"
  by pat_completeness auto
termination
  by (relation "measure length") auto

declare pop_trailing_blank.simps [simp del]

definition get_cleaned_content :: "tree_node \<Rightarrow> bool \<Rightarrow> cleaned_content" where
  "get_cleaned_content n splitlines =
     (let ls = py_splitlines (content n);
          ls = pop_leading_blank ls;
          ls = pop_trailing_blank ls
      in if splitlines then Lines ls else Joined (py_join ''\<newline>'' ls))"

section \<open>Code blocks: line numbers\<close>

definition hl_lines_attr_name :: string where
  "hl_lines_attr_name = ''hl_lines''"

definition line_start_num_attr_name :: string where
  "line_start_num_attr_name = ''linenostart''"

text \<open>
  The getters assign \<open>self.error_message\<close> while they compute their value, so each
  returns its value together with the node as it leaves it. Messages are the untranslated
  ones: \<open>gettext\<close> without a catalogue returns its argument.
\<close>

fun highlight_body :: "string \<Rightarrow> int list \<times> tree_node \<Rightarrow> int list \<times> tree_node" where
  \<comment> \<open>one round of the loop of \<open>get_highlight_lines\<close>\<close>
  "highlight_body line_num (line_nums, n) =
     (let line_num = py_strip line_num
      in if line_num = [] then (line_nums, n)
         else (case py_int line_num of
                 Some k \<Rightarrow>
                   if 0 \<le> k then (line_nums @ [k], n)
                   else (line_nums, set_error_message ''Line number must be positive'' n)
               | None \<Rightarrow> (line_nums, set_error_message (line_num @ '' is not a number'') n)))"

fun highlight_loop :: "string list \<Rightarrow> int list \<times> tree_node \<Rightarrow> int list \<times> tree_node" where
  "highlight_loop [] st = st"
| "highlight_loop (line_num # rest) st = highlight_loop rest (highlight_body line_num st)"

definition get_highlight_lines :: "tree_node \<Rightarrow> int list \<times> tree_node" where
  "get_highlight_lines n =
     (let highlight_lines = attrs_get n hl_lines_attr_name []
      in if highlight_lines = [] then ([], n)
         else highlight_loop (py_split (CHR '','') highlight_lines) ([], n))"

definition get_start_line_number :: "tree_node \<Rightarrow> int \<times> tree_node" where
  "get_start_line_number n =
     (let first_line_number = attrs_get n line_start_num_attr_name []
      in if first_line_number = [] then (1, n)
         else (case py_int first_line_number of
                 Some line_num \<Rightarrow>
                   if 0 \<le> line_num then (line_num, n)
                   else (1, set_error_message ''Line number must be positive'' n)
               | None \<Rightarrow> (1, set_error_message (first_line_number @ '' is not a number'') n)))"

section \<open>Code blocks: language, sanitizing and rendering\<close>

datatype code_block_class =
    CodeBlockTreeNode
  | FixedCodeBlockTreeNode (fixed_canonical_tag_name: string) (fixed_alias_tag_names: "string list")
      (fixed_language_name: string)
  \<comment> \<open>the class itself, or a subclass with a fixed language made by the factory\<close>

definition generate_fixed_code_block_type_cls ::
  "string \<Rightarrow> string option \<Rightarrow> string list option \<Rightarrow> py_error + code_block_class" where
  "generate_fixed_code_block_type_cls language_name canonical_tag_name alias_tag_names =
     (if language_name = [] then Inl AssertionError
      else Inr (FixedCodeBlockTreeNode
                  (case canonical_tag_name of
                     None \<Rightarrow> language_name
                   | Some tag \<Rightarrow> if tag = [] then language_name else tag)
                  (case alias_tag_names of None \<Rightarrow> [] | Some aliases \<Rightarrow> aliases)
                  language_name))"

definition tab_size :: int where "tab_size = 4"
definition pygments_css_style_name :: string where "pygments_css_style_name = ''default''"
definition display_line_numbers :: bool where "display_line_numbers = True"
definition default_language_name :: string where "default_language_name = ''text''"
definition language_attr_name :: string where "language_attr_name = ''language''"
definition filename_attr_name :: string where "filename_attr_name = ''filename''"
definition source_link_attr_name :: string where "source_link_attr_name = ''src''"
  \<comment> \<open>the code block and the image class both name their source attribute \<open>src\<close>\<close>
definition figure_id_attr_name :: string where "figure_id_attr_name = ''id''"
definition wrapping_div_class_name :: string where "wrapping_div_class_name = ''codetable''"

definition get_language_name :: "services \<Rightarrow> code_block_class \<Rightarrow> tree_node \<Rightarrow> string" where
  "get_language_name svc cls n =
     (case cls of
        CodeBlockTreeNode \<Rightarrow>
          unescape_html_entities svc
            (get_attribute_value svc n [[], language_attr_name] default_language_name)
      | FixedCodeBlockTreeNode canonical_tag aliases language_name \<Rightarrow> language_name)"

definition get_filename :: "services \<Rightarrow> tree_node \<Rightarrow> string" where
  "get_filename svc n = unescape_html_entities svc (attrs_get n filename_attr_name [])"

definition get_source_link_url :: "services \<Rightarrow> tree_node \<Rightarrow> string" where
  "get_source_link_url svc n =
     sanitize_url svc (attrs_get n source_link_attr_name []) None (relative_url_base svc)"

definition get_figure_id :: "services \<Rightarrow> tree_node \<Rightarrow> string" where
  "get_figure_id svc n = slugify svc (attrs_get n figure_id_attr_name [])"

definition code_block_sanitize_node ::
  "services \<Rightarrow> code_block_class \<Rightarrow> tree_node list \<Rightarrow> tree_node \<Rightarrow> tree_node" where
  "code_block_sanitize_node svc cls breadcrumb n =
     (let n = base_sanitize_node svc breadcrumb n;
          n = snd (get_highlight_lines n);
          n = snd (get_start_line_number n);
          language_name = get_language_name svc cls n
      in if language_name \<noteq> [] \<and> \<not> lexer_known svc language_name
         then set_error_message ''Unknown language'' n
         else n)"

definition wrapping_div_html :: "string \<Rightarrow> string" where
  \<open>wrapping_div_html source_code =
     ''<div class="'' @ wrapping_div_class_name @ ''">\<newline>    '' @ source_code @ ''\<newline></div>''\<close>

definition source_link_html :: "string \<Rightarrow> string \<Rightarrow> string \<Rightarrow> string" where
  \<open>source_link_html src_link extra_args caption =
     ''<a href="'' @ src_link @ ''"'' @ extra_args @ '' target="_blank">'' @ caption
       @ '' <i class="fa fa-link" aria-hidden="true"></i></a>''\<close>

definition code_html :: "string \<Rightarrow> string \<Rightarrow> string \<Rightarrow> string" where
  \<open>code_html figure_id source_code caption =
     ''<div class="panel panel-default" id="'' @ figure_id @ ''">\<newline>''
     @ ''    <div class="panel-body">\<newline>''
     @ ''        '' @ source_code @ ''\<newline>''
     @ ''    </div>\<newline>''
     @ ''    <div class="panel-footer">\<newline>''
     @ ''        '' @ caption @ ''\<newline>''
     @ ''    </div>\<newline>''
     @ ''</div>''\<close>

definition code_only_html :: "string \<Rightarrow> string \<Rightarrow> string" where
  \<open>code_only_html figure_id source_code =
     ''<a id="'' @ figure_id @ ''"></a>\<newline>'' @ source_code\<close>

definition cleaned_text :: "tree_node \<Rightarrow> string" where
  \<comment> \<open>\<open>self.get_cleaned_content()\<close>, the joined form\<close>
  "cleaned_text n = (case get_cleaned_content n False of Joined s \<Rightarrow> s | Lines ls \<Rightarrow> py_join ''\<newline>'' ls)"

definition render_with_lexer ::
  "services \<Rightarrow> tree_node \<Rightarrow> string \<Rightarrow> lexer \<Rightarrow> bool \<Rightarrow> string \<times> tree_node" where
  \<comment> \<open>\<open>render_html\<close> from the line \<open>style = ...\<close> on, the lexer and the figure id chosen\<close>
  \<open>render_with_lexer svc n figure_id lexer force_rel_nofollow =
     (let (lines, n) = get_highlight_lines n;
          (start, n) = get_start_line_number n;
          formatter = \<lparr> style = pygments_css_style_name,
                        linenos = (if display_line_numbers then Some ''table'' else None),
                        hl_lines = lines,
                        linenostart = start,
                        noclasses = True,
                        lineanchors = figure_id,
                        anchorlinenos = (figure_id \<noteq> []) \<rparr>;
          source_code = highlight svc (cleaned_text n) lexer formatter;
          source_code = wrapping_div_html source_code;
          src_filename = get_filename svc n;
          src_link_url = get_source_link_url svc n
      in if src_filename \<noteq> [] \<or> src_link_url \<noteq> [] then
           (let caption = ''Source : ''
                  @ (if src_filename \<noteq> [] then escape_html src_filename else src_link_url);
                caption =
                  (if src_link_url \<noteq> [] then
                     source_link_html src_link_url
                       (if force_rel_nofollow then '' rel="nofollow"'' else []) caption
                   else caption)
            in (code_html figure_id source_code caption, n))
         else if figure_id \<noteq> [] then (code_only_html figure_id source_code, n)
         else (source_code, n))\<close>

definition code_block_render_html ::
  "services \<Rightarrow> code_block_class \<Rightarrow> tree_node \<Rightarrow> string \<Rightarrow> bool
     \<Rightarrow> py_error + string \<times> tree_node" where
  \<comment> \<open>\<open>Inl\<close>: the exception that leaves \<open>render_html\<close>\<close>
  "code_block_render_html svc cls n inner_html force_rel_nofollow =
     (let figure_id = get_figure_id svc n
      in if lexer_known svc (get_language_name svc cls n)
         then Inr (render_with_lexer svc n figure_id
                     \<lparr>lexer_name = get_language_name svc cls n, tabsize = tab_size\<rparr>
                     force_rel_nofollow)
         else if lexer_known svc default_language_name
         then Inr (render_with_lexer svc n figure_id
                     \<lparr>lexer_name = default_language_name, tabsize = tab_size\<rparr>
                     force_rel_nofollow)
         else Inl ClassNotFound)"

section \<open>Images\<close>

definition alt_attr_name :: string where "alt_attr_name = ''alt''"
definition width_attr_name :: string where "width_attr_name = ''width''"
definition height_attr_name :: string where "height_attr_name = ''height''"
definition allowed_schemes :: "string list" where "allowed_schemes = [''http'', ''https'']"

definition get_image_src_link :: "services \<Rightarrow> tree_node \<Rightarrow> string" where
  "get_image_src_link svc n =
     (case attrs n source_link_attr_name of
        Some src_link \<Rightarrow>
          if src_link \<noteq> [] then src_link
          else sanitize_url svc (py_strip (get_raw_content svc n)) (Some allowed_schemes)
                 (relative_url_base svc)
      | None \<Rightarrow>
          sanitize_url svc (py_strip (get_raw_content svc n)) (Some allowed_schemes)
            (relative_url_base svc))"

definition get_alt_text :: "services \<Rightarrow> tree_node \<Rightarrow> string" where
  "get_alt_text svc n = unescape_html_entities svc (attrs_get n alt_attr_name [])"

definition get_img_width :: "tree_node \<Rightarrow> int \<times> tree_node" where
  "get_img_width n =
     (case attrs n width_attr_name of
        None \<Rightarrow> (0, n)
      | Some width \<Rightarrow>
          if width = [] then (0, n)
          else (case py_int width of
                  Some k \<Rightarrow>
                    if 0 < k then (k, n) else (0, set_error_message ''Width must be positive'' n)
                | None \<Rightarrow> (0, set_error_message (width @ '' is not a number'') n)))"

definition get_img_height :: "tree_node \<Rightarrow> int \<times> tree_node" where
  "get_img_height n =
     (case attrs n height_attr_name of
        None \<Rightarrow> (0, n)
      | Some height \<Rightarrow>
          if height = [] then (0, n)
          else (case py_int height of
                  Some k \<Rightarrow>
                    if 0 < k then (k, n) else (0, set_error_message ''Height must be positive'' n)
                | None \<Rightarrow> (0, set_error_message (height @ '' is not a number'') n)))"

definition image_sanitize_node :: "services \<Rightarrow> tree_node list \<Rightarrow> tree_node \<Rightarrow> tree_node" where
  "image_sanitize_node svc breadcrumb n =
     (let n = base_sanitize_node svc breadcrumb n;
          n = snd (get_img_width n);
          n = snd (get_img_height n)
      in if get_image_src_link svc n = []
         then set_error_message ''Missing or erroneous source URL'' n
         else n)"

definition image_render_html :: "services \<Rightarrow> tree_node \<Rightarrow> string \<Rightarrow> string \<times> tree_node" where
  \<open>image_render_html svc n inner_html =
     (let src_link = get_image_src_link svc n;
          alt_text = get_alt_text svc n;
          extra_attrs = (if alt_text \<noteq> [] then '' alt="'' @ escape_html alt_text @ ''"'' else []);
          (img_width, n) = get_img_width n;
          extra_attrs =
            (if img_width \<noteq> 0 then extra_attrs @ '' width="'' @ py_str_int img_width @ ''"''
             else extra_attrs);
          (img_height, n) = get_img_height n;
          extra_attrs =
            (if img_height \<noteq> 0 then extra_attrs @ '' height="'' @ py_str_int img_height @ ''"''
             else extra_attrs)
      in (''<img src="'' @ src_link @ ''"'' @ extra_attrs @ '' />'', n))\<close>

definition image_render_text :: "services \<Rightarrow> tree_node \<Rightarrow> string \<Rightarrow> string" where
  "image_render_text svc n inner_text =
     (let src_link = get_image_src_link svc n
      in if src_link = [] then inner_text
         else (let alt_text = get_alt_text svc n
               in if alt_text \<noteq> [] then src_link @ '' ('' @ alt_text @ '')'' else src_link))"

section \<open>Youtube videos\<close>

definition default_iframe_width :: int where "default_iframe_width = 560"
definition default_iframe_height :: int where "default_iframe_height = 315"

definition allowed_domains :: "string list" where
  "allowed_domains = [''www.youtube.com'', ''youtube.com'', ''youtu.be'']"

definition video_id_query_arg_name :: string where "video_id_query_arg_name = ''v''"

definition video_id_in_path_domains :: "string list" where
  "video_id_in_path_domains = [''youtu.be'']"

definition get_youtube_video_id :: "services \<Rightarrow> tree_node \<Rightarrow> string" where
  "get_youtube_video_id svc n =
     (let url = py_strip (get_raw_content svc n)
      in if url = [] then []
         else (case urlsplit svc url of
                 None \<Rightarrow> []
               | Some (scheme, netloc, path, query, fragment) \<Rightarrow>
                   if netloc \<notin> set allowed_domains then []
                   else if netloc \<notin> set video_id_in_path_domains then
                     (if query = [] then []
                      else (case parse_qs svc query video_id_query_arg_name of
                              None \<Rightarrow> []
                            | Some [] \<Rightarrow> []
                            | Some (video_id # _) \<Rightarrow> py_strip video_id))
                   else
                     (if path = [] \<or> take 1 path \<noteq> ''/'' then []
                      else (let video_id =
                                  posixpath_basename
                                    (rev (dropWhile (\<lambda>c. c = CHR ''/'') (rev path)))
                            in if video_id \<noteq> [] then py_strip video_id else []))))"

definition youtube_sanitize_node :: "services \<Rightarrow> tree_node list \<Rightarrow> tree_node \<Rightarrow> tree_node" where
  "youtube_sanitize_node svc breadcrumb n =
     (let n = base_sanitize_node svc breadcrumb n
      in if get_youtube_video_id svc n = []
         then set_error_message ''Missing or erroneous video URL'' n
         else n)"

definition integration_html :: "string \<Rightarrow> string \<Rightarrow> string \<Rightarrow> string" where
  \<open>integration_html width height video_id =
     ''<div class="embed-container center-block">\<newline>''
     @ ''        <div class="embed-video">\<newline>''
     @ ''            <iframe width="'' @ width @ ''" height="'' @ height
     @ ''" src="https://www.youtube.com/embed/'' @ video_id
     @ ''" frameborder="0" allowfullscreen="true"></iframe>\<newline>''
     @ ''        </div>\<newline>''
     @ ''    </div>\<newline>''
     @ ''    ''\<close>

definition youtube_render_html :: "services \<Rightarrow> tree_node \<Rightarrow> string \<Rightarrow> string" where
  "youtube_render_html svc n inner_html =
     (let video_id = get_youtube_video_id svc n
      in if video_id \<noteq> []
         then integration_html (py_str_int default_iframe_width)
                (py_str_int default_iframe_height) (quote_plus video_id)
         else inner_html)"

definition youtube_render_text :: "services \<Rightarrow> tree_node \<Rightarrow> string \<Rightarrow> string" where
  "youtube_render_text svc n inner_text =
     (let video_id = get_youtube_video_id svc n
      in if video_id \<noteq> [] then ''https://youtu.be/'' @ quote_plus video_id else inner_text)"

section \<open>Collapsible sections\<close>

datatype collapse_tag = CollapseTreeNode | Collapse2TreeNode

fun canonical_tag_name :: "collapse_tag \<Rightarrow> string" where
  "canonical_tag_name CollapseTreeNode = ''collapse''"
| "canonical_tag_name Collapse2TreeNode = ''collapse2''"

definition collapse_render_html :: "collapse_tag \<Rightarrow> tree_node \<Rightarrow> string \<Rightarrow> string" where
  \<open>collapse_render_html tag n inner_html =
     ''<div class="'' @ canonical_tag_name tag @ ''">'' @ inner_html @ ''</div>\<newline>''\<close>

definition collapse_render_text :: "collapse_tag \<Rightarrow> tree_node \<Rightarrow> string \<Rightarrow> string" where
  "collapse_render_text tag n inner_text = inner_text"

section \<open>Notions used in the statements\<close>

definition blank_line :: "string \<Rightarrow> bool" where
  \<comment> \<open>a line that is empty or holds whitespace only\<close>
  "blank_line l = list_all py_isspace l"

definition hl_tokens :: "string \<Rightarrow> string list" where
  \<comment> \<open>the tokens of an \<open>hl_lines\<close> value: its comma-separated fields, stripped, the empty ones left out\<close>
  "hl_tokens v = filter (\<lambda>t. t \<noteq> []) (map py_strip (py_split (CHR '','') v))"

definition line_numbers_from :: "int \<Rightarrow> string list \<Rightarrow> int list" where
  \<comment> \<open>the values of the tokens that are integers not below the bound, in order\<close>
  "line_numbers_from lo ts =
     concat (map (\<lambda>t. case py_int t of None \<Rightarrow> [] | Some k \<Rightarrow> if lo \<le> k then [k] else []) ts)"

definition positive_line_numbers :: "string list \<Rightarrow> int list" where
  "positive_line_numbers ts = line_numbers_from 1 ts"

definition rejection_message :: "string \<Rightarrow> string option" where
  \<comment> \<open>the message for a token that is a negative number or not a number\<close>
  "rejection_message t =
     (case py_int t of
        None \<Rightarrow> Some (t @ '' is not a number'')
      | Some k \<Rightarrow> if k < 0 then Some ''Line number must be positive'' else None)"

definition rejection_messages :: "string list \<Rightarrow> string list" where
  "rejection_messages ts = List.map_filter rejection_message ts"

definition retain_last :: "string list \<Rightarrow> tree_node \<Rightarrow> tree_node" where
  \<comment> \<open>a node after the messages have been assigned to it one after the other\<close>
  "retain_last msgs n = (if msgs = [] then n else set_error_message (last msgs) n)"

definition on_foreign_domain :: "services \<Rightarrow> tree_node \<Rightarrow> bool" where
  \<comment> \<open>the raw content of the node splits as a URL whose netloc is not an allowed domain\<close>
  "on_foreign_domain svc n =
     (case urlsplit svc (py_strip (get_raw_content svc n)) of
        None \<Rightarrow> False
      | Some (scheme, netloc, path, query, fragment) \<Rightarrow> netloc \<notin> set allowed_domains)"

text \<open>
  The problems each hook detects on a node, in the order in which the hook meets them.
  They are read off the attributes and the content alone.
\<close>

definition start_line_problems :: "tree_node \<Rightarrow> string list" where
  "start_line_problems n =
     (let v = attrs_get n line_start_num_attr_name []
      in if v = [] then [] else rejection_messages [v])"

definition language_problems :: "services \<Rightarrow> code_block_class \<Rightarrow> tree_node \<Rightarrow> string list" where
  "language_problems svc cls n =
     (if get_language_name svc cls n \<noteq> [] \<and> \<not> lexer_known svc (get_language_name svc cls n)
      then [''Unknown language''] else [])"

definition code_block_problems :: "services \<Rightarrow> code_block_class \<Rightarrow> tree_node \<Rightarrow> string list" where
  "code_block_problems svc cls n =
     rejection_messages (hl_tokens (attrs_get n hl_lines_attr_name []))
     @ start_line_problems n
     @ language_problems svc cls n"

definition size_problems :: "string \<Rightarrow> string \<Rightarrow> tree_node \<Rightarrow> string list" where
  "size_problems attr_name positive_msg n =
     (let v = attrs_get n attr_name []
      in if v = [] then []
         else (case py_int v of
                 None \<Rightarrow> [v @ '' is not a number'']
               | Some k \<Rightarrow> if 0 < k then [] else [positive_msg]))"

definition image_problems :: "services \<Rightarrow> tree_node \<Rightarrow> string list" where
  "image_problems svc n =
     size_problems width_attr_name ''Width must be positive'' n
     @ size_problems height_attr_name ''Height must be positive'' n
     @ (if get_image_src_link svc n = [] then [''Missing or erroneous source URL''] else [])"

definition youtube_problems :: "services \<Rightarrow> tree_node \<Rightarrow> string list" where
  "youtube_problems svc n =
     (if get_youtube_video_id svc n = [] then [''Missing or erroneous video URL''] else [])"

section \<open>Sample collaborators and nodes\<close>

definition plain_services :: services where
  \<comment> \<open>simple stand-ins for the collaborators, used to run the model on sample nodes: the
      inherited hook does nothing, the raw content is the node's own content, URLs are
      kept when they start with an allowed scheme, and the highlighter knows \<open>text\<close> and
      \<open>python\<close>\<close>
  "plain_services =
     \<lparr> base_sanitize_node = (\<lambda>breadcrumb n. n),
       raw_content = (\<lambda>content children. content),
       attribute_value =
         (\<lambda>name attrs attr_names d.
            case List.map_filter (\<lambda>a. attrs (if a = [] then name else a)) attr_names of
              [] \<Rightarrow> d
            | v # _ \<Rightarrow> v),
       relative_url_base = [],
       sanitize_url =
         (\<lambda>url schemes base.
            if list_ex (\<lambda>s. take (length s + 1) url = s @ '':'')
                 (case schemes of None \<Rightarrow> [''http'', ''https''] | Some ss \<Rightarrow> ss)
            then url else []),
       slugify = (\<lambda>s. s),
       replace_charrefs = (\<lambda>s. s),
       parse_qs = (\<lambda>query. Map.empty),
       bracketed_host_ok = (\<lambda>host. False),
       netloc_nfkc_ok = (\<lambda>netloc. False),
       lexer_known = (\<lambda>name. name \<in> set [''text'', ''python'']),
       highlight = (\<lambda>code lexer formatter. ''<pre>'' @ escape_html code @ ''</pre>'') \<rparr>"

definition youtube_node :: "string \<Rightarrow> tree_node" where
  "youtube_node url = TreeNode ''youtube'' Map.empty url None []"

definition unknown_language_listing :: tree_node where
  \<open>unknown_language_listing =
     TreeNode ''code'' [language_attr_name \<mapsto> ''klingon''] ''print(1)'' None []\<close>

definition faulty_listing :: tree_node where
  \<comment> \<open>a code block with a negative line number followed by a token that is not a number\<close>
  \<open>faulty_listing = TreeNode ''code'' [hl_lines_attr_name \<mapsto> ''-1,x''] ''print(1)'' None []\<close>

definition script_image :: tree_node where
  \<open>script_image =
     TreeNode ''img'' [source_link_attr_name \<mapsto> ''"><script>alert(1)</script>''] [] None []\<close>

definition javascript_image :: tree_node where
  \<open>javascript_image =
     TreeNode ''img'' [source_link_attr_name \<mapsto> ''javascript:alert(1)''] [] None []\<close>

definition padded_listing :: tree_node where
  \<comment> \<open>a code block whose content has blank lines at both ends and one inside\<close>
  "padded_listing =
     TreeNode ''code'' Map.empty
       (''\<newline>  \<newline>  a = 1\<newline>\<newline>   b = 2\<newline> \<newline>'') None []"

definition highlighted_listing :: tree_node where
  \<open>highlighted_listing = TreeNode ''code'' [hl_lines_attr_name \<mapsto> ''2,-1,x''] [] None []\<close>

definition numbered_listing :: "string \<Rightarrow> tree_node" where
  "numbered_listing v = TreeNode ''code'' [line_start_num_attr_name \<mapsto> v] [] None []"

definition misspelt_listing :: tree_node where
  \<comment> \<open>a code block with a highlight token that is not a number and an unknown language\<close>
  \<open>misspelt_listing =
     TreeNode ''code'' [hl_lines_attr_name \<mapsto> ''x'', language_attr_name \<mapsto> ''klingon'']
       ''print(1)'' None []\<close>

definition oversized_image :: tree_node where
  \<comment> \<open>an image with a width that is not a number and no source\<close>
  \<open>oversized_image = TreeNode ''img'' [width_attr_name \<mapsto> ''wide''] [] None []\<close>

section \<open>Properties\<close>

subsection \<open>Blank lines\<close>

lemma all_dropWhile_iff:
  "(\<forall>x \<in> set (dropWhile P l). P x) \<longleftrightarrow> (\<forall>x \<in> set l. P x)"
proof
  assume rest: "\<forall>x \<in> set (dropWhile P l). P x"
  have "dropWhile P l = []"
  proof (rule ccontr)
    assume ne: "dropWhile P l \<noteq> []"
    then have "\<not> P (hd (dropWhile P l))" by (rule hd_dropWhile)
    moreover from ne have "hd (dropWhile P l) \<in> set (dropWhile P l)" by simp
    ultimately show False using rest by blast
  qed
  then show "\<forall>x \<in> set l. P x" by (simp add: dropWhile_eq_Nil_conv)
next
  assume "\<forall>x \<in> set l. P x"
  then show "\<forall>x \<in> set (dropWhile P l). P x" by (blast dest: set_dropWhileD)
qed

lemma py_strip_empty_iff: "py_strip l = [] \<longleftrightarrow> blank_line l"
  by (simp add: py_strip_def py_rstrip_def py_lstrip_def blank_line_def list_all_iff
      all_dropWhile_iff)

lemma pop_leading_blank_decomp:
  "\<exists>pre. ls = pre @ pop_leading_blank ls \<and> list_all blank_line pre"
proof (induction ls)
  case Nil
  show ?case by simp
next
  case (Cons l ls)
  show ?case
  proof (cases "py_strip l = []")
    case True
    from Cons obtain pre where "ls = pre @ pop_leading_blank ls" "list_all blank_line pre"
      by blast
    with True have "l # ls = (l # pre) @ pop_leading_blank (l # ls) \<and> list_all blank_line (l # pre)"
      by (simp add: py_strip_empty_iff)
    then show ?thesis by blast
  next
    case False
    then have "l # ls = [] @ pop_leading_blank (l # ls) \<and> list_all blank_line []"
      by simp
    then show ?thesis by blast
  qed
qed

lemma pop_leading_blank_hd:
  "pop_leading_blank ls \<noteq> [] \<Longrightarrow> \<not> blank_line (hd (pop_leading_blank ls))"
  by (induction ls) (auto simp: py_strip_empty_iff)

lemma pop_trailing_blank_decomp:
  "\<exists>post. ls = pop_trailing_blank ls @ post \<and> list_all blank_line post"
proof (induction ls rule: pop_trailing_blank.induct)
  case (1 ls)
  show ?case
  proof (cases "ls \<noteq> [] \<and> py_strip (last ls) = []")
    case True
    with 1 obtain post where
      post: "butlast ls = pop_trailing_blank (butlast ls) @ post" "list_all blank_line post"
      by blast
    from True have eq: "pop_trailing_blank ls = pop_trailing_blank (butlast ls)"
      by (subst pop_trailing_blank.simps) simp
    from True have "ls = butlast ls @ [last ls]" by simp
    with post(1) have "ls = pop_trailing_blank (butlast ls) @ (post @ [last ls])"
      by (metis append_assoc)
    moreover from True post(2) have "list_all blank_line (post @ [last ls])"
      by (simp add: py_strip_empty_iff)
    ultimately show ?thesis using eq by metis
  next
    case False
    then have "pop_trailing_blank ls = ls"
      by (subst pop_trailing_blank.simps) auto
    then have "ls = pop_trailing_blank ls @ [] \<and> list_all blank_line []" by simp
    then show ?thesis by blast
  qed
qed

lemma pop_trailing_blank_last:
  "pop_trailing_blank ls \<noteq> [] \<Longrightarrow> \<not> blank_line (last (pop_trailing_blank ls))"
proof (induction ls rule: pop_trailing_blank.induct)
  case (1 ls)
  show ?case
  proof (cases "ls \<noteq> [] \<and> py_strip (last ls) = []")
    case True
    then have "pop_trailing_blank ls = pop_trailing_blank (butlast ls)"
      by (subst pop_trailing_blank.simps) simp
    with 1 True show ?thesis by simp
  next
    case False
    then have "pop_trailing_blank ls = ls"
      by (subst pop_trailing_blank.simps) auto
    with False 1(2) show ?thesis by (simp add: py_strip_empty_iff)
  qed
qed

lemma pop_trailing_blank_hd:
  "pop_trailing_blank ls \<noteq> [] \<Longrightarrow> hd (pop_trailing_blank ls) = hd ls"
proof -
  assume ne: "pop_trailing_blank ls \<noteq> []"
  obtain post where "ls = pop_trailing_blank ls @ post"
    using pop_trailing_blank_decomp by blast
  then have "hd ls = hd (pop_trailing_blank ls @ post)" by simp
  with ne show ?thesis by simp
qed

subsection \<open>Cleaned content\<close>

text \<open>
  C7. \<open>get_cleaned_content\<close> removes exactly the blank lines before the first and after
  the last non-blank line: the lines of the content are a run of blank lines, then the
  kept lines, then a run of blank lines; the kept lines, when there are any, start and
  end with a non-blank line, so every line between them, blank or not, is kept as it is
  and in order. With \<open>splitlines\<close> the kept lines are returned, otherwise they are
  joined by a newline.
\<close>

theorem get_cleaned_content_trims_blank_ends:
  "\<exists>pre kept post.
     py_splitlines (content n) = pre @ kept @ post
     \<and> list_all blank_line pre
     \<and> list_all blank_line post
     \<and> (kept \<noteq> [] \<longrightarrow> \<not> blank_line (hd kept) \<and> \<not> blank_line (last kept))
     \<and> get_cleaned_content n True = Lines kept
     \<and> get_cleaned_content n False = Joined (py_join ''\<newline>'' kept)"
proof -
  define ls where "ls = py_splitlines (content n)"
  define mid where "mid = pop_leading_blank ls"
  define kept where "kept = pop_trailing_blank mid"
  obtain pre where pre: "ls = pre @ mid" "list_all blank_line pre"
    unfolding mid_def using pop_leading_blank_decomp by blast
  obtain post where post: "mid = kept @ post" "list_all blank_line post"
    unfolding kept_def using pop_trailing_blank_decomp by blast
  have ends: "kept \<noteq> [] \<longrightarrow> \<not> blank_line (hd kept) \<and> \<not> blank_line (last kept)"
  proof
    assume ne: "kept \<noteq> []"
    then have "hd kept = hd mid"
      unfolding kept_def by (rule pop_trailing_blank_hd)
    moreover from ne post(1) have "mid \<noteq> []" by auto
    ultimately have "\<not> blank_line (hd kept)"
      unfolding mid_def using pop_leading_blank_hd by metis
    moreover from ne have "\<not> blank_line (last kept)"
      unfolding kept_def by (rule pop_trailing_blank_last)
    ultimately show "\<not> blank_line (hd kept) \<and> \<not> blank_line (last kept)" by simp
  qed
  have "get_cleaned_content n True = Lines kept"
    by (simp add: get_cleaned_content_def kept_def mid_def ls_def)
  moreover have "get_cleaned_content n False = Joined (py_join ''\<newline>'' kept)"
    by (simp add: get_cleaned_content_def kept_def mid_def ls_def)
  moreover from pre(1) post(1) have "py_splitlines (content n) = pre @ kept @ post"
    by (simp add: ls_def)
  ultimately show ?thesis using pre(2) post(2) ends by blast
qed

lemma padded_listing_lines:
  "get_cleaned_content padded_listing True = Lines [''  a = 1'', '''', ''   b = 2'']"
  by code_simp

theorem get_cleaned_content_trims_blank_ends_witness:
  "\<exists>pre kept post.
     py_splitlines (content padded_listing) = pre @ kept @ post
     \<and> list_all blank_line pre \<and> list_all blank_line post
     \<and> kept \<noteq> [] \<and> \<not> blank_line (hd kept) \<and> \<not> blank_line (last kept)
     \<and> kept = [''  a = 1'', '''', ''   b = 2'']
     \<and> get_cleaned_content padded_listing False = Joined (py_join ''\<newline>'' kept)"
proof -
  from get_cleaned_content_trims_blank_ends [of padded_listing]
  obtain pre kept post where
    split: "py_splitlines (content padded_listing) = pre @ kept @ post"
    and blank: "list_all blank_line pre" "list_all blank_line post"
    and ends: "kept \<noteq> [] \<longrightarrow> \<not> blank_line (hd kept) \<and> \<not> blank_line (last kept)"
    and lines: "get_cleaned_content padded_listing True = Lines kept"
    and joined: "get_cleaned_content padded_listing False = Joined (py_join ''\<newline>'' kept)"
    by blast
  from lines have kept: "kept = [''  a = 1'', '''', ''   b = 2'']"
    by (simp add: padded_listing_lines)
  then have "kept \<noteq> []" by simp
  with ends have "\<not> blank_line (hd kept) \<and> \<not> blank_line (last kept)" by blast
  with split blank kept joined \<open>kept \<noteq> []\<close> show ?thesis by blast
qed

subsection \<open>Collapsible sections\<close>

text \<open>
  C10. The plain-text hook of a collapse node returns its \<open>inner_text\<close> argument
  unchanged, for the \<open>collapse\<close> and the \<open>collapse2\<close> tag alike.
\<close>

theorem collapse_render_text_identity:
  "collapse_render_text CollapseTreeNode n inner_text = inner_text
   \<and> collapse_render_text Collapse2TreeNode n inner_text = inner_text"
  by (simp add: collapse_render_text_def)

subsection \<open>Highlighted lines\<close>

lemma set_error_message_twice [simp]:
  "set_error_message a (set_error_message b n) = set_error_message a n"
  by (cases n) simp

lemma set_error_message_sel [simp]:
  "error_message (set_error_message a n) = Some a"
  "name (set_error_message a n) = name n"
  "attrs (set_error_message a n) = attrs n"
  "content (set_error_message a n) = content n"
  "children (set_error_message a n) = children n"
  by (cases n; simp)+

lemma retain_last_Nil [simp]: "retain_last [] n = n"
  by (simp add: retain_last_def)

lemma retain_last_append:
  "retain_last (xs @ ys) n = retain_last ys (retain_last xs n)"
  by (simp add: retain_last_def)

lemma retain_last_sel [simp]:
  "name (retain_last ms n) = name n"
  "attrs (retain_last ms n) = attrs n"
  "content (retain_last ms n) = content n"
  "children (retain_last ms n) = children n"
  by (simp_all add: retain_last_def)

lemma error_message_retain_last:
  "error_message (retain_last ms n) = (if ms = [] then error_message n else Some (last ms))"
  by (simp add: retain_last_def)

lemma highlight_loop_append:
  "highlight_loop (xs @ ys) st = highlight_loop ys (highlight_loop xs st)"
  by (induction xs arbitrary: st) simp_all

lemma filter_map_strip:
  "filter (\<lambda>t. t \<noteq> []) (map py_strip fs)
     = concat (map (\<lambda>f. if py_strip f = [] then [] else [py_strip f]) fs)"
  by (induction fs) simp_all

lemma hl_tokens_fields:
  "hl_tokens v = concat (map (\<lambda>f. if py_strip f = [] then [] else [py_strip f]) (py_split (CHR '','') v))"
  unfolding hl_tokens_def by (rule filter_map_strip)

lemma highlight_body_eq:
  "highlight_body f (acc, n) =
     (acc @ line_numbers_from 0 (if py_strip f = [] then [] else [py_strip f]),
      retain_last (rejection_messages (if py_strip f = [] then [] else [py_strip f])) n)"
  by (simp add: line_numbers_from_def rejection_messages_def rejection_message_def
      retain_last_def Let_def split: option.splits)

lemma line_numbers_from_append:
  "line_numbers_from lo (xs @ ys) = line_numbers_from lo xs @ line_numbers_from lo ys"
  by (simp add: line_numbers_from_def)

lemma rejection_messages_append:
  "rejection_messages (xs @ ys) = rejection_messages xs @ rejection_messages ys"
  by (simp add: rejection_messages_def List.map_filter_def)

lemma highlight_loop_eq:
  "highlight_loop fs (acc, n) =
     (acc @ line_numbers_from 0 (concat (map (\<lambda>f. if py_strip f = [] then [] else [py_strip f]) fs)),
      retain_last (rejection_messages (concat (map (\<lambda>f. if py_strip f = [] then [] else [py_strip f]) fs))) n)"
proof (induction fs arbitrary: acc n)
  case Nil
  show ?case by (simp add: line_numbers_from_def rejection_messages_def)
next
  case (Cons f fs)
  show ?case
    by (simp only: highlight_loop.simps highlight_body_eq Cons.IH list.map concat.simps
        line_numbers_from_append rejection_messages_append retain_last_append append_assoc)
qed

lemma get_highlight_lines_eq:
  "get_highlight_lines n =
     (line_numbers_from 0 (hl_tokens (attrs_get n hl_lines_attr_name [])),
      retain_last (rejection_messages (hl_tokens (attrs_get n hl_lines_attr_name []))) n)"
proof (cases "attrs_get n hl_lines_attr_name [] = []")
  case True
  then show ?thesis
    by (simp add: get_highlight_lines_def hl_tokens_fields line_numbers_from_def
        rejection_messages_def py_strip_def py_rstrip_def py_lstrip_def)
next
  case False
  then show ?thesis
    by (simp add: get_highlight_lines_def highlight_loop_eq hl_tokens_fields Let_def)
qed

lemma line_numbers_from_no_zero:
  "\<forall>t \<in> set ts. py_int t \<noteq> Some 0 \<Longrightarrow> line_numbers_from 0 ts = positive_line_numbers ts"
proof (induction ts)
  case Nil
  show ?case by (simp add: positive_line_numbers_def line_numbers_from_def)
next
  case (Cons t ts)
  then have rest: "line_numbers_from 0 ts = line_numbers_from 1 ts"
    by (simp add: positive_line_numbers_def)
  from Cons.prems have "py_int t \<noteq> Some 0" by simp
  then have "line_numbers_from 0 [t] = line_numbers_from 1 [t]"
    by (cases "py_int t") (auto simp: line_numbers_from_def)
  with rest have "line_numbers_from 0 ([t] @ ts) = line_numbers_from 1 ([t] @ ts)"
    by (simp only: line_numbers_from_append)
  then show ?case by (simp add: positive_line_numbers_def)
qed

lemma highlight_body_records:
  assumes "py_strip f \<noteq> []" and "rejection_message (py_strip f) = Some msg"
  shows "error_message (snd (highlight_body f st)) = Some msg"
proof -
  obtain acc n where st: "st = (acc, n)" by (cases st)
  from assms show ?thesis
    unfolding st
    by (auto simp: rejection_message_def Let_def split: option.splits if_splits)
qed

lemma sample_tokens: "hl_tokens ''2,-1,x'' = [''2'', ''-1'', ''x'']"
  by code_simp

lemma sample_fields: "py_split (CHR '','') ''2,-1,x'' = [''2'', ''-1'', ''x'']"
  by code_simp

lemma sample_values:
  "py_int ''2'' = Some 2" "py_int ''-1'' = Some (- 1)" "py_int ''x'' = None"
  by code_simp+

text \<open>
  C3, as amended. When every token of an \<open>hl_lines\<close> value is a positive integer, a
  negative number or not a number, \<open>get_highlight_lines\<close> returns exactly the positive
  integers, in order. Each rejected token assigns its message to the node in its round
  of the loop, replacing the message before it, so the node that \<open>get_highlight_lines\<close>
  leaves differs from the one it was given in the error message alone, and holds the
  message of the last rejected token only. For \<open>2,-1,x\<close> the list is \<open>[2]\<close> and the
  node holds the message for \<open>x\<close>.
\<close>

theorem get_highlight_lines_keeps_positive_retains_last_rejection:
  assumes "attrs n hl_lines_attr_name = Some v"
    and "\<forall>t \<in> set (hl_tokens v). py_int t \<noteq> Some 0"
  shows "fst (get_highlight_lines n) = positive_line_numbers (hl_tokens v)
    \<and> snd (get_highlight_lines n) = retain_last (rejection_messages (hl_tokens v)) n
    \<and> error_message (snd (get_highlight_lines n))
        = (if rejection_messages (hl_tokens v) = [] then error_message n
           else Some (last (rejection_messages (hl_tokens v))))
    \<and> (v \<noteq> [] \<longrightarrow> get_highlight_lines n = highlight_loop (py_split (CHR '','') v) ([], n))
    \<and> (\<forall>i msg. i < length (py_split (CHR '','') v)
          \<and> py_strip (py_split (CHR '','') v ! i) \<noteq> []
          \<and> rejection_message (py_strip (py_split (CHR '','') v ! i)) = Some msg
        \<longrightarrow> error_message (snd (highlight_loop (take (Suc i) (py_split (CHR '','') v)) ([], n)))
              = Some msg)"
proof (intro conjI allI impI)
  from assms(1) have v: "attrs_get n hl_lines_attr_name [] = v"
    by (simp add: attrs_get_def)
  then have "fst (get_highlight_lines n) = line_numbers_from 0 (hl_tokens v)"
    by (simp add: get_highlight_lines_eq)
  with assms(2) show "fst (get_highlight_lines n) = positive_line_numbers (hl_tokens v)"
    by (simp add: line_numbers_from_no_zero)
  from v show node: "snd (get_highlight_lines n) = retain_last (rejection_messages (hl_tokens v)) n"
    by (simp add: get_highlight_lines_eq)
  show "error_message (snd (get_highlight_lines n))
        = (if rejection_messages (hl_tokens v) = [] then error_message n
           else Some (last (rejection_messages (hl_tokens v))))"
    unfolding node by (rule error_message_retain_last)
next
  assume "v \<noteq> []"
  with assms(1) show "get_highlight_lines n = highlight_loop (py_split (CHR '','') v) ([], n)"
    by (simp add: get_highlight_lines_def attrs_get_def)
next
  fix i msg
  define fs where "fs = py_split (CHR '','') v"
  assume "i < length (py_split (CHR '','') v)
          \<and> py_strip (py_split (CHR '','') v ! i) \<noteq> []
          \<and> rejection_message (py_strip (py_split (CHR '','') v ! i)) = Some msg"
  then have i: "i < length fs" and tok: "py_strip (fs ! i) \<noteq> []"
    and rej: "rejection_message (py_strip (fs ! i)) = Some msg"
    by (simp_all add: fs_def)
  from i have "take (Suc i) fs = take i fs @ [fs ! i]"
    by (rule take_Suc_conv_app_nth)
  then have "highlight_loop (take (Suc i) fs) ([], n)
      = highlight_body (fs ! i) (highlight_loop (take i fs) ([], n))"
    by (simp add: highlight_loop_append)
  with tok rej show "error_message (snd (highlight_loop (take (Suc i) (py_split (CHR '','') v)) ([], n))) = Some msg"
    by (simp add: highlight_body_records fs_def)
qed

theorem get_highlight_lines_keeps_positive_retains_last_rejection_witness:
  "fst (get_highlight_lines highlighted_listing) = [2]
   \<and> snd (get_highlight_lines highlighted_listing)
       = set_error_message ''x is not a number'' highlighted_listing
   \<and> error_message (snd (get_highlight_lines highlighted_listing)) = Some ''x is not a number''
   \<and> get_highlight_lines highlighted_listing
       = highlight_loop [''2'', ''-1'', ''x''] ([], highlighted_listing)
   \<and> error_message (snd (highlight_loop [''2'', ''-1''] ([], highlighted_listing)))
       = Some ''Line number must be positive''"
proof -
  have attr: "attrs highlighted_listing hl_lines_attr_name = Some ''2,-1,x''"
    by (simp add: highlighted_listing_def)
  have no_zero: "\<forall>t \<in> set (hl_tokens ''2,-1,x''). py_int t \<noteq> Some 0"
    by (simp add: sample_tokens sample_values)
  note main = get_highlight_lines_keeps_positive_retains_last_rejection [OF attr no_zero]
  have "positive_line_numbers (hl_tokens ''2,-1,x'') = [2]"
    by (simp add: sample_tokens positive_line_numbers_def line_numbers_from_def sample_values)
  with main [THEN conjunct1] have numbers: "fst (get_highlight_lines highlighted_listing) = [2]"
    by simp
  have rejected: "rejection_messages (hl_tokens ''2,-1,x'')
      = [''Line number must be positive'', ''x is not a number'']"
    by (simp add: sample_tokens rejection_messages_def rejection_message_def sample_values)
  from main [THEN conjunct2, THEN conjunct1]
  have "snd (get_highlight_lines highlighted_listing)
      = retain_last (rejection_messages (hl_tokens ''2,-1,x'')) highlighted_listing" .
  then have node: "snd (get_highlight_lines highlighted_listing)
      = set_error_message ''x is not a number'' highlighted_listing"
    by (simp add: rejected retain_last_def)
  have "''2,-1,x'' \<noteq> []"
    by simp
  with main [THEN conjunct2, THEN conjunct2, THEN conjunct2, THEN conjunct1]
  have "get_highlight_lines highlighted_listing
       = highlight_loop (py_split (CHR '','') ''2,-1,x'') ([], highlighted_listing)"
    by blast
  then have run: "get_highlight_lines highlighted_listing
       = highlight_loop [''2'', ''-1'', ''x''] ([], highlighted_listing)"
    by (simp only: sample_fields)
  from node have message:
    "error_message (snd (get_highlight_lines highlighted_listing)) = Some ''x is not a number''"
    by simp
  have strip: "py_strip ''-1'' = ''-1''"
    by code_simp
  have "rejection_message ''-1'' = Some ''Line number must be positive''"
    by (simp add: rejection_message_def sample_values)
  with main [THEN conjunct2, THEN conjunct2, THEN conjunct2, THEN conjunct2, rule_format,
      of 1 "''Line number must be positive''"]
  have round: "error_message (snd (highlight_loop [''2'', ''-1''] ([], highlighted_listing)))
       = Some ''Line number must be positive''"
    by (simp add: sample_fields strip)
  from numbers node message run round show ?thesis by blast
qed

text \<open>
  C3 as written fails: after \<open>get_highlight_lines\<close> on \<open>hl_lines="2,-1,x"\<close> the list
  is \<open>[2]\<close>, but the node holds the message for \<open>x\<close> and not the one that the token
  \<open>-1\<close> gives, so an error is not on the node for each rejected token.
\<close>

theorem rejected_token_message_overwritten_counterexample:
  "fst (get_highlight_lines highlighted_listing) = [2]
   \<and> rejection_message ''-1'' = Some ''Line number must be positive''
   \<and> error_message (snd (get_highlight_lines highlighted_listing)) = Some ''x is not a number''
   \<and> error_message (snd (get_highlight_lines highlighted_listing))
       \<noteq> Some ''Line number must be positive''"
  by code_simp

subsection \<open>First line number\<close>

text \<open>
  C9. \<open>get_start_line_number\<close> returns 1 when \<open>linenostart\<close> is absent or empty;
  returns 1 and assigns an error message when the value is not a number or is a negative
  integer; and returns the integer when it is zero or more. The value \<open>0\<close> is returned
  as it is and the node is left unchanged.
\<close>

theorem get_start_line_number_cases:
  "(attrs n line_start_num_attr_name = None \<or> attrs n line_start_num_attr_name = Some []
      \<longrightarrow> get_start_line_number n = (1, n))
   \<and> (\<forall>v. attrs n line_start_num_attr_name = Some v \<and> v \<noteq> [] \<and> py_int v = None
      \<longrightarrow> get_start_line_number n = (1, set_error_message (v @ '' is not a number'') n))
   \<and> (\<forall>v k. attrs n line_start_num_attr_name = Some v \<and> py_int v = Some k \<and> k < 0
      \<longrightarrow> get_start_line_number n = (1, set_error_message ''Line number must be positive'' n))
   \<and> (\<forall>v k. attrs n line_start_num_attr_name = Some v \<and> py_int v = Some k \<and> 0 \<le> k
      \<longrightarrow> get_start_line_number n = (k, n))
   \<and> (attrs n line_start_num_attr_name = Some ''0'' \<longrightarrow> get_start_line_number n = (0, n))"
proof -
  have zero: "py_int ''0'' = Some 0" by code_simp
  have empty: "py_int [] = None" by code_simp
  show ?thesis
    by (auto simp: get_start_line_number_def attrs_get_def zero empty)
qed

theorem get_start_line_number_cases_witness:
  "get_start_line_number (TreeNode ''code'' Map.empty [] None [])
     = (1, TreeNode ''code'' Map.empty [] None [])
   \<and> get_start_line_number (numbered_listing []) = (1, numbered_listing [])
   \<and> get_start_line_number (numbered_listing ''x'')
       = (1, set_error_message ''x is not a number'' (numbered_listing ''x''))
   \<and> get_start_line_number (numbered_listing ''-1'')
       = (1, set_error_message ''Line number must be positive'' (numbered_listing ''-1''))
   \<and> get_start_line_number (numbered_listing ''2'') = (2, numbered_listing ''2'')
   \<and> get_start_line_number (numbered_listing ''0'') = (0, numbered_listing ''0'')"
proof -
  have attr: "attrs (numbered_listing v) line_start_num_attr_name = Some v" for v
    by (simp add: numbered_listing_def)
  have absent: "attrs (TreeNode ''code'' Map.empty [] None []) line_start_num_attr_name = None"
    by simp
  note c = get_start_line_number_cases
  from c [of "TreeNode ''code'' Map.empty [] None []"] absent
  have "get_start_line_number (TreeNode ''code'' Map.empty [] None [])
     = (1, TreeNode ''code'' Map.empty [] None [])"
    by blast
  moreover from c [of "numbered_listing []"] attr [of "[]"]
  have "get_start_line_number (numbered_listing []) = (1, numbered_listing [])"
    by blast
  moreover from c [of "numbered_listing ''x''"] attr [of "''x''"] sample_values(3)
  have "get_start_line_number (numbered_listing ''x'')
       = (1, set_error_message ''x is not a number'' (numbered_listing ''x''))"
    by simp
  moreover from c [of "numbered_listing ''-1''"] attr [of "''-1''"] sample_values(2)
  have "get_start_line_number (numbered_listing ''-1'')
       = (1, set_error_message ''Line number must be positive'' (numbered_listing ''-1''))"
    by simp
  moreover from c [of "numbered_listing ''2''"] attr [of "''2''"] sample_values(1)
  have "get_start_line_number (numbered_listing ''2'') = (2, numbered_listing ''2'')"
    by simp
  moreover from c [of "numbered_listing ''0''"] attr [of "''0''"]
  have "get_start_line_number (numbered_listing ''0'') = (0, numbered_listing ''0'')"
    by blast
  ultimately show ?thesis by blast
qed

subsection \<open>Youtube videos\<close>

lemma short_url_strip:
  "py_strip ''https://youtu.be/dQw4w9WgXcQ'' = ''https://youtu.be/dQw4w9WgXcQ''"
  by code_simp

lemma short_url_split:
  "urlsplit svc ''https://youtu.be/dQw4w9WgXcQ''
     = Some (''https'', ''youtu.be'', ''/dQw4w9WgXcQ'', [], [])"
  by code_simp

lemma short_url_basename:
  "posixpath_basename ''/dQw4w9WgXcQ'' = ''dQw4w9WgXcQ''"
  by code_simp

lemma short_url_id_strip: "py_strip ''dQw4w9WgXcQ'' = ''dQw4w9WgXcQ''"
  by code_simp

lemma short_url_id_quoted: "quote_plus ''dQw4w9WgXcQ'' = ''dQw4w9WgXcQ''"
  by code_simp

lemma iframe_size:
  "py_str_int default_iframe_width = ''560''" "py_str_int default_iframe_height = ''315''"
  by code_simp+

lemma short_url_video_id:
  assumes "get_raw_content svc n = ''https://youtu.be/dQw4w9WgXcQ''"
  shows "get_youtube_video_id svc n = ''dQw4w9WgXcQ''"
  unfolding get_youtube_video_id_def assms short_url_strip Let_def short_url_split
  by (simp add: allowed_domains_def video_id_in_path_domains_def short_url_basename
      short_url_id_strip)

lemma foreign_domain_video_id:
  assumes "on_foreign_domain svc n"
  shows "get_youtube_video_id svc n = []"
  using assms
  by (auto simp: on_foreign_domain_def get_youtube_video_id_def Let_def split: option.splits)

lemma get_raw_content_set_error_message [simp]:
  "get_raw_content svc (set_error_message msg n) = get_raw_content svc n"
  by (simp add: get_raw_content_def)

text \<open>
  C5. A youtube node whose raw content is \<open>https://youtu.be/dQw4w9WgXcQ\<close> has the
  video id \<open>dQw4w9WgXcQ\<close>, and its HTML is the embed for that id. A youtube node whose
  raw content is a URL on a domain outside the allowed ones has no video id: its HTML
  and its text are the inner content unchanged, and \<open>sanitize_node\<close>, which looks at
  the node the inherited hook returns, assigns the error message.
\<close>

theorem youtube_short_url_embeds_foreign_domain_falls_back:
  "(get_raw_content svc n = ''https://youtu.be/dQw4w9WgXcQ'' \<longrightarrow>
      get_youtube_video_id svc n = ''dQw4w9WgXcQ''
      \<and> youtube_render_html svc n inner = integration_html ''560'' ''315'' ''dQw4w9WgXcQ'')
   \<and> (on_foreign_domain svc n \<longrightarrow>
      youtube_render_html svc n inner = inner \<and> youtube_render_text svc n inner = inner)
   \<and> (on_foreign_domain svc (base_sanitize_node svc breadcrumb n) \<longrightarrow>
      error_message (youtube_sanitize_node svc breadcrumb n)
        = Some ''Missing or erroneous video URL'')"
proof (intro conjI impI)
  assume raw: "get_raw_content svc n = ''https://youtu.be/dQw4w9WgXcQ''"
  then show "get_youtube_video_id svc n = ''dQw4w9WgXcQ''"
    by (rule short_url_video_id)
  then show "youtube_render_html svc n inner = integration_html ''560'' ''315'' ''dQw4w9WgXcQ''"
    by (simp add: youtube_render_html_def short_url_id_quoted iframe_size)
next
  assume "on_foreign_domain svc n"
  then have none: "get_youtube_video_id svc n = []"
    by (rule foreign_domain_video_id)
  then show "youtube_render_html svc n inner = inner"
    by (simp add: youtube_render_html_def)
  from none show "youtube_render_text svc n inner = inner"
    by (simp add: youtube_render_text_def)
next
  assume "on_foreign_domain svc (base_sanitize_node svc breadcrumb n)"
  then have "get_youtube_video_id svc (base_sanitize_node svc breadcrumb n) = []"
    by (rule foreign_domain_video_id)
  then show "error_message (youtube_sanitize_node svc breadcrumb n)
        = Some ''Missing or erroneous video URL''"
    by (simp add: youtube_sanitize_node_def)
qed

lemma plain_raw_content: "get_raw_content plain_services (youtube_node url) = url"
  by (simp add: get_raw_content_def plain_services_def youtube_node_def)

lemma plain_base_sanitize_node: "base_sanitize_node plain_services breadcrumb n = n"
  by (simp add: plain_services_def)

lemma vimeo_foreign: "on_foreign_domain plain_services (youtube_node ''https://vimeo.com/123456'')"
proof -
  have "py_strip ''https://vimeo.com/123456'' = ''https://vimeo.com/123456''"
    by code_simp
  moreover have "urlsplit plain_services ''https://vimeo.com/123456''
      = Some (''https'', ''vimeo.com'', ''/123456'', [], [])"
    by code_simp
  ultimately show ?thesis
    by (simp add: on_foreign_domain_def plain_raw_content allowed_domains_def)
qed

theorem youtube_short_url_embeds_foreign_domain_falls_back_witness:
  \<open>get_youtube_video_id plain_services (youtube_node ''https://youtu.be/dQw4w9WgXcQ'')
     = ''dQw4w9WgXcQ''
   \<and> youtube_render_html plain_services (youtube_node ''https://youtu.be/dQw4w9WgXcQ'') ''inner''
     = ''<div class="embed-container center-block">\<newline>''
       @ ''        <div class="embed-video">\<newline>''
       @ ''            <iframe width="560" height="315" ''
       @ ''src="https://www.youtube.com/embed/dQw4w9WgXcQ" ''
       @ ''frameborder="0" allowfullscreen="true"></iframe>\<newline>''
       @ ''        </div>\<newline>''
       @ ''    </div>\<newline>''
       @ ''    ''
   \<and> youtube_render_html plain_services (youtube_node ''https://vimeo.com/123456'') ''inner''
     = ''inner''
   \<and> youtube_render_text plain_services (youtube_node ''https://vimeo.com/123456'') ''inner''
     = ''inner''
   \<and> error_message (youtube_sanitize_node plain_services [] (youtube_node ''https://vimeo.com/123456''))
     = Some ''Missing or erroneous video URL''\<close>
proof -
  note short =
    youtube_short_url_embeds_foreign_domain_falls_back
      [of plain_services "youtube_node ''https://youtu.be/dQw4w9WgXcQ''" "''inner''" "[]"]
  note foreign =
    youtube_short_url_embeds_foreign_domain_falls_back
      [of plain_services "youtube_node ''https://vimeo.com/123456''" "''inner''" "[]"]
  from short have
    "get_youtube_video_id plain_services (youtube_node ''https://youtu.be/dQw4w9WgXcQ'')
       = ''dQw4w9WgXcQ''"
    and "youtube_render_html plain_services (youtube_node ''https://youtu.be/dQw4w9WgXcQ'') ''inner''
       = integration_html ''560'' ''315'' ''dQw4w9WgXcQ''"
    by (simp_all add: plain_raw_content)
  moreover from foreign vimeo_foreign have
    "youtube_render_html plain_services (youtube_node ''https://vimeo.com/123456'') ''inner''
       = ''inner''"
    and "youtube_render_text plain_services (youtube_node ''https://vimeo.com/123456'') ''inner''
       = ''inner''"
    and "error_message (youtube_sanitize_node plain_services [] (youtube_node ''https://vimeo.com/123456''))
       = Some ''Missing or erroneous video URL''"
    by (simp_all add: plain_base_sanitize_node)
  ultimately show ?thesis
    by (simp add: integration_html_def)
qed

subsection \<open>What the sanitizing hooks leave on a node\<close>

lemma attrs_get_retain_last [simp]: "attrs_get (retain_last ms n) k d = attrs_get n k d"
  by (simp add: attrs_get_def)

lemma get_raw_content_retain_last [simp]:
  "get_raw_content svc (retain_last ms n) = get_raw_content svc n"
  by (simp add: get_raw_content_def)

lemma get_language_name_retain_last [simp]:
  "get_language_name svc cls (retain_last ms n) = get_language_name svc cls n"
  by (simp add: get_language_name_def get_attribute_value_def split: code_block_class.splits)

lemma get_image_src_link_retain_last [simp]:
  "get_image_src_link svc (retain_last ms n) = get_image_src_link svc n"
  by (simp add: get_image_src_link_def split: option.splits)

lemma get_youtube_video_id_retain_last [simp]:
  "get_youtube_video_id svc (retain_last ms n) = get_youtube_video_id svc n"
  by (simp add: get_youtube_video_id_def)

lemma start_line_problems_retain_last [simp]:
  "start_line_problems (retain_last ms n) = start_line_problems n"
  by (simp add: start_line_problems_def)

lemma language_problems_retain_last [simp]:
  "language_problems svc cls (retain_last ms n) = language_problems svc cls n"
  by (simp add: language_problems_def)

lemma size_problems_retain_last [simp]:
  "size_problems k msg (retain_last ms n) = size_problems k msg n"
  by (simp add: size_problems_def)

lemma code_block_problems_retain_last [simp]:
  "code_block_problems svc cls (retain_last ms n) = code_block_problems svc cls n"
  by (simp add: code_block_problems_def)

lemma image_problems_retain_last [simp]:
  "image_problems svc (retain_last ms n) = image_problems svc n"
  by (simp add: image_problems_def)

lemma youtube_problems_retain_last [simp]:
  "youtube_problems svc (retain_last ms n) = youtube_problems svc n"
  by (simp add: youtube_problems_def)

lemma get_highlight_lines_node:
  "snd (get_highlight_lines n)
     = retain_last (rejection_messages (hl_tokens (attrs_get n hl_lines_attr_name []))) n"
  by (simp add: get_highlight_lines_eq)

lemma get_start_line_number_node:
  "snd (get_start_line_number n) = retain_last (start_line_problems n) n"
  by (simp add: get_start_line_number_def start_line_problems_def rejection_messages_def
      rejection_message_def retain_last_def Let_def split: option.splits)

lemma get_img_width_node:
  "snd (get_img_width n) = retain_last (size_problems width_attr_name ''Width must be positive'' n) n"
  by (simp add: get_img_width_def size_problems_def attrs_get_def retain_last_def
      split: option.splits)

lemma get_img_height_node:
  "snd (get_img_height n) = retain_last (size_problems height_attr_name ''Height must be positive'' n) n"
  by (simp add: get_img_height_def size_problems_def attrs_get_def retain_last_def
      split: option.splits)

lemma code_block_sanitize_node_eq:
  "code_block_sanitize_node svc cls breadcrumb n
     = retain_last (code_block_problems svc cls (base_sanitize_node svc breadcrumb n))
         (base_sanitize_node svc breadcrumb n)"
proof -
  define m where "m = base_sanitize_node svc breadcrumb n"
  define hs where "hs = rejection_messages (hl_tokens (attrs_get m hl_lines_attr_name []))"
  have "code_block_sanitize_node svc cls breadcrumb n
      = retain_last (language_problems svc cls m) (retain_last (start_line_problems m) (retain_last hs m))"
    by (simp add: code_block_sanitize_node_def Let_def get_highlight_lines_node
        get_start_line_number_node m_def [symmetric] hs_def [symmetric])
      (simp add: language_problems_def retain_last_def)
  then show ?thesis
    by (simp add: code_block_problems_def retain_last_append m_def hs_def)
qed

lemma image_sanitize_node_eq:
  "image_sanitize_node svc breadcrumb n
     = retain_last (image_problems svc (base_sanitize_node svc breadcrumb n))
         (base_sanitize_node svc breadcrumb n)"
proof -
  define m where "m = base_sanitize_node svc breadcrumb n"
  define ws where "ws = size_problems width_attr_name ''Width must be positive'' m"
  define hs where "hs = size_problems height_attr_name ''Height must be positive'' m"
  have "image_sanitize_node svc breadcrumb n
      = retain_last (if get_image_src_link svc m = [] then [''Missing or erroneous source URL''] else [])
          (retain_last hs (retain_last ws m))"
    by (simp add: image_sanitize_node_def Let_def get_img_width_node get_img_height_node
        m_def [symmetric] ws_def [symmetric] hs_def [symmetric])
      (simp add: retain_last_def)
  then show ?thesis
    by (simp add: image_problems_def retain_last_append m_def hs_def ws_def)
qed

lemma youtube_sanitize_node_eq:
  "youtube_sanitize_node svc breadcrumb n
     = retain_last (youtube_problems svc (base_sanitize_node svc breadcrumb n))
         (base_sanitize_node svc breadcrumb n)"
  by (simp add: youtube_sanitize_node_def youtube_problems_def retain_last_def Let_def)

subsection \<open>Which error message stays on a node\<close>

text \<open>
  C4, as amended. A node holds at most one error message. When a sanitizing hook detects
  problems on a node, the message left on the node is that of the last problem detected:
  each assignment replaces the message before it. When it detects none, the message is
  the one the inherited hook left.
\<close>

theorem sanitize_node_retains_last_problem:
  "error_message (code_block_sanitize_node svc cls breadcrumb n)
     = (let m = base_sanitize_node svc breadcrumb n; problems = code_block_problems svc cls m
        in if problems = [] then error_message m else Some (last problems))
   \<and> error_message (image_sanitize_node svc breadcrumb n)
     = (let m = base_sanitize_node svc breadcrumb n; problems = image_problems svc m
        in if problems = [] then error_message m else Some (last problems))"
  by (simp add: code_block_sanitize_node_eq image_sanitize_node_eq error_message_retain_last
      Let_def)

lemma misspelt_listing_problems:
  "code_block_problems plain_services CodeBlockTreeNode misspelt_listing
     = [''x is not a number'', ''Unknown language'']"
  by code_simp

lemma oversized_image_problems:
  "image_problems plain_services oversized_image
     = [''wide is not a number'', ''Missing or erroneous source URL'']"
  by code_simp

theorem sanitize_node_retains_last_problem_witness:
  "error_message (code_block_sanitize_node plain_services CodeBlockTreeNode [] misspelt_listing)
     = Some ''Unknown language''
   \<and> error_message (image_sanitize_node plain_services [] oversized_image)
     = Some ''Missing or erroneous source URL''"
  using sanitize_node_retains_last_problem
      [of plain_services CodeBlockTreeNode "[]" misspelt_listing]
    sanitize_node_retains_last_problem
      [of plain_services CodeBlockTreeNode "[]" oversized_image]
  by (simp add: plain_base_sanitize_node misspelt_listing_problems oversized_image_problems)

text \<open>
  C4 as written fails: on a code block with \<open>hl_lines="-1,x"\<close> the first problem
  detected is the negative number, and the message left is the one for \<open>x\<close>.
\<close>

theorem first_problem_not_retained_counterexample:
  "error_message (snd (highlight_loop [''-1''] ([], faulty_listing)))
     = Some ''Line number must be positive''
   \<and> error_message (code_block_sanitize_node plain_services CodeBlockTreeNode [] faulty_listing)
     = Some ''x is not a number''
   \<and> error_message (code_block_sanitize_node plain_services CodeBlockTreeNode [] faulty_listing)
     \<noteq> Some ''Line number must be positive''"
  by code_simp

subsection \<open>Running a sanitizing hook twice\<close>

lemma base_retain_last:
  assumes "\<forall>msg x. base_sanitize_node svc bc (set_error_message msg x)
              = set_error_message msg (base_sanitize_node svc bc x)"
  shows "base_sanitize_node svc bc (retain_last ms x) = retain_last ms (base_sanitize_node svc bc x)"
  using assms by (simp add: retain_last_def)

lemma retain_last_twice [simp]: "retain_last ms (retain_last ms n) = retain_last ms n"
  by (simp add: retain_last_def)

lemma sanitize_twice:
  assumes idem: "\<forall>x. base_sanitize_node svc bc (base_sanitize_node svc bc x)
              = base_sanitize_node svc bc x"
    and indep: "\<forall>msg x. base_sanitize_node svc bc (set_error_message msg x)
              = set_error_message msg (base_sanitize_node svc bc x)"
    and hook: "\<And>x. hook x = retain_last (problems (base_sanitize_node svc bc x))
              (base_sanitize_node svc bc x)"
    and problems: "\<And>ms x. problems (retain_last ms x) = problems x"
  shows "hook (hook n) = hook n"
proof -
  define m where "m = base_sanitize_node svc bc n"
  have "base_sanitize_node svc bc (hook n) = retain_last (problems m) (base_sanitize_node svc bc m)"
    unfolding hook [of n] m_def [symmetric] using indep by (rule base_retain_last)
  also have "base_sanitize_node svc bc m = m"
    unfolding m_def using idem by simp
  finally have "base_sanitize_node svc bc (hook n) = hook n"
    by (simp add: hook [of n] m_def)
  then have "hook (hook n) = retain_last (problems (hook n)) (hook n)"
    by (simp add: hook [of "hook n"])
  also have "\<dots> = hook n"
    by (simp add: hook [of n] problems)
  finally show ?thesis .
qed

text \<open>
  C8. The inherited hook \<open>TreeNode.sanitize_node\<close> is a parameter. When it is
  idempotent, does not depend on the node's error message and keeps the children, the
  hooks of code blocks, images and youtube videos are idempotent for every breadcrumb:
  a second run returns the node of the first run, and no hook changes the children.
\<close>

theorem sanitize_node_idempotent:
  assumes "\<forall>x. base_sanitize_node svc bc (base_sanitize_node svc bc x)
              = base_sanitize_node svc bc x"
    and "\<forall>msg x. base_sanitize_node svc bc (set_error_message msg x)
              = set_error_message msg (base_sanitize_node svc bc x)"
    and "\<forall>x. children (base_sanitize_node svc bc x) = children x"
  shows "code_block_sanitize_node svc cls bc (code_block_sanitize_node svc cls bc n)
           = code_block_sanitize_node svc cls bc n
    \<and> image_sanitize_node svc bc (image_sanitize_node svc bc n) = image_sanitize_node svc bc n
    \<and> youtube_sanitize_node svc bc (youtube_sanitize_node svc bc n) = youtube_sanitize_node svc bc n
    \<and> children (code_block_sanitize_node svc cls bc n) = children n
    \<and> children (image_sanitize_node svc bc n) = children n
    \<and> children (youtube_sanitize_node svc bc n) = children n"
proof (intro conjI)
  show "code_block_sanitize_node svc cls bc (code_block_sanitize_node svc cls bc n)
           = code_block_sanitize_node svc cls bc n"
    using assms(1,2)
    by (rule sanitize_twice [where problems = "code_block_problems svc cls"])
      (simp_all add: code_block_sanitize_node_eq)
  show "image_sanitize_node svc bc (image_sanitize_node svc bc n) = image_sanitize_node svc bc n"
    using assms(1,2)
    by (rule sanitize_twice [where problems = "image_problems svc"])
      (simp_all add: image_sanitize_node_eq)
  show "youtube_sanitize_node svc bc (youtube_sanitize_node svc bc n) = youtube_sanitize_node svc bc n"
    using assms(1,2)
    by (rule sanitize_twice [where problems = "youtube_problems svc"])
      (simp_all add: youtube_sanitize_node_eq)
  show "children (code_block_sanitize_node svc cls bc n) = children n"
    using assms(3) by (simp add: code_block_sanitize_node_eq)
  show "children (image_sanitize_node svc bc n) = children n"
    using assms(3) by (simp add: image_sanitize_node_eq)
  show "children (youtube_sanitize_node svc bc n) = children n"
    using assms(3) by (simp add: youtube_sanitize_node_eq)
qed

theorem sanitize_node_idempotent_witness:
  "code_block_sanitize_node plain_services CodeBlockTreeNode []
       (code_block_sanitize_node plain_services CodeBlockTreeNode [] misspelt_listing)
     = code_block_sanitize_node plain_services CodeBlockTreeNode [] misspelt_listing
   \<and> image_sanitize_node plain_services [] (image_sanitize_node plain_services [] oversized_image)
     = image_sanitize_node plain_services [] oversized_image
   \<and> youtube_sanitize_node plain_services []
       (youtube_sanitize_node plain_services [] (youtube_node ''https://vimeo.com/123456''))
     = youtube_sanitize_node plain_services [] (youtube_node ''https://vimeo.com/123456'')
   \<and> children (code_block_sanitize_node plain_services CodeBlockTreeNode [] misspelt_listing) = []
   \<and> error_message (code_block_sanitize_node plain_services CodeBlockTreeNode []
         (code_block_sanitize_node plain_services CodeBlockTreeNode [] misspelt_listing))
     = Some ''Unknown language''"
proof -
  have idem: "\<forall>x. base_sanitize_node plain_services [] (base_sanitize_node plain_services [] x)
              = base_sanitize_node plain_services [] x"
    by (simp add: plain_base_sanitize_node)
  have indep: "\<forall>msg x. base_sanitize_node plain_services [] (set_error_message msg x)
              = set_error_message msg (base_sanitize_node plain_services [] x)"
    by (simp add: plain_base_sanitize_node)
  have keeps: "\<forall>x. children (base_sanitize_node plain_services [] x) = children x"
    by (simp add: plain_base_sanitize_node)
  note twice = sanitize_node_idempotent [OF idem indep keeps, of CodeBlockTreeNode]
  have once: "error_message (code_block_sanitize_node plain_services CodeBlockTreeNode [] misspelt_listing)
      = Some ''Unknown language''"
    by (simp add: code_block_sanitize_node_eq plain_base_sanitize_node misspelt_listing_problems
        error_message_retain_last)
  have kids: "children misspelt_listing = []"
    by (simp add: misspelt_listing_def)
  from twice [of misspelt_listing] twice [of oversized_image]
    twice [of "youtube_node ''https://vimeo.com/123456''"] once kids
  show ?thesis by simp
qed

subsection \<open>Unknown languages\<close>

text \<open>
  C6. When the language name of a code block is one the highlighter does not know,
  \<open>sanitize_node\<close> leaves the message \<open>Unknown language\<close> on the node, and
  \<open>render_html\<close> does not fail: it renders with the default lexer \<open>text\<close>, which the
  highlighter is taken to know.
\<close>

theorem unknown_language_recorded_and_rendered_as_text:
  "(get_language_name svc cls (base_sanitize_node svc breadcrumb n) \<noteq> []
      \<and> \<not> lexer_known svc (get_language_name svc cls (base_sanitize_node svc breadcrumb n))
    \<longrightarrow> error_message (code_block_sanitize_node svc cls breadcrumb n) = Some ''Unknown language'')
   \<and> (\<not> lexer_known svc (get_language_name svc cls n) \<and> lexer_known svc default_language_name
    \<longrightarrow> code_block_render_html svc cls n inner_html force_rel_nofollow
          = Inr (render_with_lexer svc n (get_figure_id svc n)
                   \<lparr>lexer_name = default_language_name, tabsize = tab_size\<rparr>
                   force_rel_nofollow))"
proof (intro conjI impI)
  define m where "m = base_sanitize_node svc breadcrumb n"
  assume "get_language_name svc cls (base_sanitize_node svc breadcrumb n) \<noteq> []
      \<and> \<not> lexer_known svc (get_language_name svc cls (base_sanitize_node svc breadcrumb n))"
  then have "language_problems svc cls m = [''Unknown language'']"
    by (simp add: language_problems_def m_def)
  then have "code_block_problems svc cls m \<noteq> []"
    and "last (code_block_problems svc cls m) = ''Unknown language''"
    by (simp_all add: code_block_problems_def)
  then show "error_message (code_block_sanitize_node svc cls breadcrumb n) = Some ''Unknown language''"
    by (simp add: code_block_sanitize_node_eq error_message_retain_last m_def)
next
  assume "\<not> lexer_known svc (get_language_name svc cls n) \<and> lexer_known svc default_language_name"
  then show "code_block_render_html svc cls n inner_html force_rel_nofollow
          = Inr (render_with_lexer svc n (get_figure_id svc n)
                   \<lparr>lexer_name = default_language_name, tabsize = tab_size\<rparr>
                   force_rel_nofollow)"
    by (simp add: code_block_render_html_def)
qed

lemma unknown_language_name:
  "get_language_name plain_services CodeBlockTreeNode unknown_language_listing = ''klingon''"
  by code_simp

lemma plain_lexers:
  "\<not> lexer_known plain_services ''klingon''" "lexer_known plain_services default_language_name"
  by code_simp+

lemma render_with_lexer_node:
  "snd (render_with_lexer svc n figure_id lexer force_rel_nofollow)
     = snd (get_start_line_number (snd (get_highlight_lines n)))"
  by (simp add: render_with_lexer_def Let_def split: prod.splits)

lemma unknown_language_rendering:
  \<open>render_with_lexer plain_services unknown_language_listing
      (get_figure_id plain_services unknown_language_listing)
      \<lparr>lexer_name = default_language_name, tabsize = tab_size\<rparr> True
    = (''<div class="codetable">\<newline>    <pre>print(1)</pre>\<newline></div>'',
       unknown_language_listing)\<close>
proof (rule prod_eqI)
  show \<open>fst (render_with_lexer plain_services unknown_language_listing
      (get_figure_id plain_services unknown_language_listing)
      \<lparr>lexer_name = default_language_name, tabsize = tab_size\<rparr> True)
    = fst (''<div class="codetable">\<newline>    <pre>print(1)</pre>\<newline></div>'',
       unknown_language_listing)\<close>
    unfolding fst_conv by code_simp
  have "get_highlight_lines unknown_language_listing = ([], unknown_language_listing)"
    by (simp add: get_highlight_lines_def attrs_get_def unknown_language_listing_def
        language_attr_name_def hl_lines_attr_name_def)
  moreover have "get_start_line_number unknown_language_listing = (1, unknown_language_listing)"
    by (simp add: get_start_line_number_def attrs_get_def unknown_language_listing_def
        language_attr_name_def line_start_num_attr_name_def)
  ultimately show \<open>snd (render_with_lexer plain_services unknown_language_listing
      (get_figure_id plain_services unknown_language_listing)
      \<lparr>lexer_name = default_language_name, tabsize = tab_size\<rparr> True)
    = snd (''<div class="codetable">\<newline>    <pre>print(1)</pre>\<newline></div>'',
       unknown_language_listing)\<close>
    by (simp add: render_with_lexer_node)
qed

theorem unknown_language_recorded_and_rendered_as_text_witness:
  \<open>error_message (code_block_sanitize_node plain_services CodeBlockTreeNode []
       unknown_language_listing) = Some ''Unknown language''
   \<and> code_block_render_html plain_services CodeBlockTreeNode unknown_language_listing [] True
     = Inr (''<div class="codetable">\<newline>    <pre>print(1)</pre>\<newline></div>'',
            unknown_language_listing)\<close>
  using unknown_language_recorded_and_rendered_as_text
    [of plain_services CodeBlockTreeNode "[]" unknown_language_listing "[]" True]
  by (simp add: plain_base_sanitize_node unknown_language_name plain_lexers
      unknown_language_rendering)

subsection \<open>The source link of an image\<close>

lemma get_image_src_link_attribute:
  assumes "attrs n source_link_attr_name = Some src_link" and "src_link \<noteq> []"
  shows "get_image_src_link svc n = src_link"
  using assms by (simp add: get_image_src_link_def)

text \<open>
  C1. The claim does not hold of the code. An image whose \<open>src\<close> attribute is
  \<open>"><script>alert(1)</script>\<close> is rendered with that value copied into the
  \<open>img\<close> tag as it is, whatever the URL sanitizer does: \<open>get_image_src_link\<close> returns
  a non-empty \<open>src\<close> attribute before it reaches \<open>sanitize_url\<close>, and \<open>render_html\<close>
  does not escape the link.
\<close>

theorem image_src_attribute_rendered_raw:
  \<open>get_image_src_link svc script_image = ''"><script>alert(1)</script>''
   \<and> fst (image_render_html svc script_image inner_html)
     = ''<img src=""><script>alert(1)</script>" />''\<close>
proof -
  have link: \<open>get_image_src_link svc script_image = ''"><script>alert(1)</script>''\<close>
    by (rule get_image_src_link_attribute) (simp_all add: script_image_def)
  have alt: "get_alt_text svc script_image = []"
    by (simp add: get_alt_text_def unescape_html_entities_def attrs_get_def script_image_def
        alt_attr_name_def source_link_attr_name_def)
  have width: "get_img_width script_image = (0, script_image)"
    by (simp add: get_img_width_def script_image_def width_attr_name_def
        source_link_attr_name_def)
  have height: "get_img_height script_image = (0, script_image)"
    by (simp add: get_img_height_def script_image_def height_attr_name_def
        source_link_attr_name_def)
  from link alt width height show ?thesis
    by (simp add: image_render_html_def)
qed

text \<open>
  C2. The claim does not hold of the code. An image whose \<open>src\<close> attribute is
  \<open>javascript:alert(1)\<close> has that value as its source link, whatever the URL
  sanitizer does, and \<open>sanitize_node\<close> (here with an inherited hook that does nothing)
  returns the node as it is, without an error message.
\<close>

theorem image_src_attribute_bypasses_allow_list:
  "get_image_src_link svc javascript_image = ''javascript:alert(1)''
   \<and> image_sanitize_node (svc\<lparr>base_sanitize_node := (\<lambda>breadcrumb n. n)\<rparr>) breadcrumb
        javascript_image = javascript_image
   \<and> error_message (image_sanitize_node (svc\<lparr>base_sanitize_node := (\<lambda>breadcrumb n. n)\<rparr>)
        breadcrumb javascript_image) = None"
proof -
  have link: "get_image_src_link svc' javascript_image = ''javascript:alert(1)''" for svc'
    by (rule get_image_src_link_attribute) (simp_all add: javascript_image_def)
  have width: "get_img_width javascript_image = (0, javascript_image)"
    by (simp add: get_img_width_def javascript_image_def width_attr_name_def
        source_link_attr_name_def)
  have height: "get_img_height javascript_image = (0, javascript_image)"
    by (simp add: get_img_height_def javascript_image_def height_attr_name_def
        source_link_attr_name_def)
  have "image_sanitize_node (svc\<lparr>base_sanitize_node := (\<lambda>breadcrumb n. n)\<rparr>) breadcrumb
        javascript_image = javascript_image"
    by (simp add: image_sanitize_node_def width height link)
  moreover have "error_message javascript_image = None"
    by (simp add: javascript_image_def)
  ultimately show ?thesis using link by simp
qed

end
